theory Spec2Isabelle
  imports Complex_Main "HOL-Library.Word"
begin

section \<open>The Gaussian Cube reader and writer of Avogadro (GaussianCube::read, GaussianCube::write)\<close>

text \<open>
  The two functions work on C++ streams, on the Molecule and Cube classes and on
  doubles and floats. The embedding keeps the control flow, the stream positions, the
  integer types and the calls on Molecule and Cube as the source has them. Floating-point
  values stay abstract: \<open>'r\<close> is the type of doubles and \<open>'f\<close> the type of floats, and
  what the platform does with them (scanning, multiplying, printing) is a record of
  operations handed to every function. Undefined behaviour of the C++ (an index out of
  range, a read of an uninitialised variable, signed overflow) and an exception leaving
  the function are results of their own.
\<close>

subsection \<open>std::istream\<close>

record istream =
  buf :: string
  eofbit :: bool
  failbit :: bool

definition good :: "istream \<Rightarrow> bool" where
  "good s = (\<not> eofbit s \<and> \<not> failbit s)"

definition istream_of :: "string \<Rightarrow> istream" where
  "istream_of cs = \<lparr>buf = cs, eofbit = False, failbit = False\<rparr>"

definition newline :: char where
  "newline = CHR 0x0A"

text \<open>
  std::getline(in, line): when the stream is not good the sentry fails, failbit is set and
  the string keeps its content. Otherwise the string is erased and filled up to the next
  newline, which is taken from the stream and dropped; reaching the end sets eofbit, and
  failbit too when nothing at all was taken.
\<close>

definition getline :: "istream \<Rightarrow> string \<Rightarrow> istream \<times> string" where
  "getline s line =
     (if \<not> good s then (s\<lparr>failbit := True\<rparr>, line)
      else let a = takeWhile (\<lambda>c. c \<noteq> newline) (buf s);
               b = dropWhile (\<lambda>c. c \<noteq> newline) (buf s)
           in (case b of
                 [] \<Rightarrow> (s\<lparr>buf := [], eofbit := True, failbit := (a = [])\<rparr>, a)
               | _ # r \<Rightarrow> (s\<lparr>buf := r\<rparr>, a)))"

text \<open>std::isspace in the C locale: space, \<open>\t\<close>, \<open>\n\<close>, \<open>\v\<close>, \<open>\f\<close>, \<open>\r\<close>.\<close>

definition isspace :: "char \<Rightarrow> bool" where
  "isspace c = (c = CHR '' '' \<or> c = CHR 0x09 \<or> c = CHR 0x0A \<or> c = CHR 0x0B
                \<or> c = CHR 0x0C \<or> c = CHR 0x0D)"

definition isdigit :: "char \<Rightarrow> bool" where
  "isdigit c = (48 \<le> (of_char c :: nat) \<and> (of_char c :: nat) \<le> 57)"

text \<open>
  \<open>in >> x\<close> for a numeric \<open>x\<close>. A variable is \<open>None\<close> while it is uninitialised.
  When the stream is not good, or holds only white space, the sentry fails and \<open>x\<close> is not
  touched. Otherwise the scanner of the type reads from the first non-space character and
  gives the value stored (since C++11 a value is stored also when the scan fails), whether
  the scan succeeded, and the rest of the input; a scan that used up the input sets eofbit.
\<close>

definition extraction ::
  "(string \<Rightarrow> 'a \<times> bool \<times> string) \<Rightarrow> istream \<Rightarrow> 'a option \<Rightarrow> istream \<times> 'a option" where
  "extraction scan s old =
     (if \<not> good s then (s\<lparr>failbit := True\<rparr>, old)
      else let cs = dropWhile isspace (buf s)
           in if cs = [] then (s\<lparr>buf := [], eofbit := True, failbit := True\<rparr>, old)
              else (case scan cs of
                      (v, ok, r) \<Rightarrow> (s\<lparr>buf := r, eofbit := (r = []), failbit := \<not> ok\<rparr>, Some v)))"

definition dec_value :: "string \<Rightarrow> int" where
  "dec_value ds = foldl (\<lambda>n c. 10 * n + (of_char c - 48)) 0 ds"

text \<open>
  The scanner of \<open>int\<close> (num_get in base 10): an optional sign, then digits. No digit: the
  scan fails and stores 0. A value out of the range of int: the scan fails and stores the
  nearest bound.
\<close>

definition scan_int :: "string \<Rightarrow> 32 word \<times> bool \<times> string" where
  "scan_int cs =
     (let neg = (cs \<noteq> [] \<and> hd cs = CHR ''-'');
          cs1 = (if cs \<noteq> [] \<and> (hd cs = CHR ''-'' \<or> hd cs = CHR ''+'') then tl cs else cs);
          ds = takeWhile isdigit cs1;
          r = dropWhile isdigit cs1;
          n = dec_value ds
      in if ds = [] then (0, False, cs1)
         else if neg then
           (if n > 2147483648 then (word_of_int (- 2147483648), False, r)
            else (word_of_int (- n), True, r))
         else
           (if n > 2147483647 then (word_of_int 2147483647, False, r)
            else (word_of_int n, True, r)))"

subsection \<open>The platform: floating point and the helpers of avogadro/core/utilities.h\<close>

text \<open>
  Core::lexicalCast, BOHR_TO_ANGSTROM and ANGSTROM_TO_BOHR are declared in headers that
  are not part of the sources at hand, and the scanning and printing of floating-point
  numbers belong to the C++ library. They are the fields of this record. The scanners have
  the type \<open>extraction\<close> expects. \<open>fixed6\<close> is the text of a double under std::fixed with
  precision 6, \<open>sci5\<close> the text of a float under std::scientific with precision 5, both
  before padding. \<open>perceive\<close> is the bond inference of Molecule.
\<close>

type_synonym 'r vec3 = "'r \<times> 'r \<times> 'r"

record 'r atom =
  atomicNumber :: "8 word"
  position3d :: "'r vec3"
  isValid :: bool

record ('r, 'f) prims =
  scan_uint :: "string \<Rightarrow> 32 word \<times> bool \<times> string"
  scan_double :: "string \<Rightarrow> 'r \<times> bool \<times> string"
  scan_float :: "string \<Rightarrow> 'f \<times> bool \<times> string"
  lexicalCast_int :: "string \<Rightarrow> 32 word"
  lexicalCast_short :: "string \<Rightarrow> 16 word"
  lexicalCast_double :: "string \<Rightarrow> 'r"
  mul :: "'r \<Rightarrow> 'r \<Rightarrow> 'r"
  BOHR_TO_ANGSTROM :: 'r
  ANGSTROM_TO_BOHR :: 'r
  zero_double :: 'r
  zero_float :: 'f
  fixed6 :: "'r \<Rightarrow> string"
  sci5 :: "'f \<Rightarrow> string"
  perceive :: "'r atom list \<Rightarrow> (nat \<times> nat) list"

definition vscale :: "('r, 'f) prims \<Rightarrow> 'r vec3 \<Rightarrow> 'r \<Rightarrow> 'r vec3" where
  "vscale P v k = (case v of (x, y, z) \<Rightarrow> (mul P x k, mul P y k, mul P z k))"

text \<open>
  Modelled from the spec: Core::trimmed and Core::split of avogadro/core/utilities.h are
  not in the sources at hand. The spec names them as the primitives "trim" and "split on
  whitespace"; the call sites pass the delimiter \<open>' '\<close>. \<open>trimmed\<close> drops white space
  at both ends, \<open>split\<close> cuts at every delimiter and keeps the non-empty pieces.
\<close>

definition istrim :: "char \<Rightarrow> bool" where
  "istrim c = (c = CHR '' '' \<or> c = CHR 0x0A \<or> c = CHR 0x0D \<or> c = CHR 0x09)"

definition trimmed :: "string \<Rightarrow> string" where
  "trimmed s = rev (dropWhile istrim (rev (dropWhile istrim s)))"

fun pieces :: "char \<Rightarrow> string \<Rightarrow> string list" where
  "pieces d [] = [[]]"
| "pieces d (c # cs) =
     (if c = d then [] # pieces d cs
      else (case pieces d cs of [] \<Rightarrow> [[c]] | x # xs \<Rightarrow> (c # x) # xs))"

definition split :: "string \<Rightarrow> char \<Rightarrow> string list" where
  "split s d = filter (\<lambda>x. x \<noteq> []) (pieces d s)"

subsection \<open>Molecule and Cube\<close>

text \<open>
  Modelled from the spec: Core::Molecule and Core::Cube are not in the sources at hand.
  The spec lists their interface (section 6): a Molecule holds the "name" datum, atoms and
  cubes; addAtom appends an atom, setPosition3d sets its position, perceiveBondsSimple
  infers bonds, addCube appends a cube; a Cube holds its limits and its buffer. The field
  \<open>calls\<close> records the calls made on the Molecule and its cubes, in order.
\<close>

datatype call = SetData | AddAtom | SetPosition3d | PerceiveBondsSimple
  | AddCube | SetLimits | CubeSetData

record ('r, 'f) cube =
  cube_min :: "'r vec3"
  dimensions :: "32 word vec3"
  spacing :: "'r vec3"
  cube_data :: "'f list"

record ('r, 'f) molecule =
  name_data :: "string option"
  atoms :: "'r atom list"
  bonds :: "(nat \<times> nat) list"
  cubes :: "('r, 'f) cube list"
  calls :: "call list"

definition setData_name :: "string \<Rightarrow> ('r, 'f) molecule \<Rightarrow> ('r, 'f) molecule" where
  "setData_name v m = m\<lparr>name_data := Some v, calls := calls m @ [SetData]\<rparr>"

definition data_name :: "('r, 'f) molecule \<Rightarrow> string" where
  "data_name m = (case name_data m of None \<Rightarrow> [] | Some v \<Rightarrow> v)"

definition addAtom :: "('r, 'f) prims \<Rightarrow> 8 word \<Rightarrow> ('r, 'f) molecule \<Rightarrow> ('r, 'f) molecule" where
  "addAtom P z m =
     m\<lparr>atoms := atoms m @ [\<lparr>atomicNumber = z,
                              position3d = (zero_double P, zero_double P, zero_double P),
                              isValid = True\<rparr>],
       calls := calls m @ [AddAtom]\<rparr>"

text \<open>setPosition3d on the handle addAtom has just returned: the last atom.\<close>

definition setPosition3d :: "'r vec3 \<Rightarrow> ('r, 'f) molecule \<Rightarrow> ('r, 'f) molecule" where
  "setPosition3d pos m =
     m\<lparr>atoms := (case rev (atoms m) of [] \<Rightarrow> []
                  | a # as \<Rightarrow> rev as @ [a\<lparr>position3d := pos\<rparr>]),
       calls := calls m @ [SetPosition3d]\<rparr>"

definition perceiveBondsSimple :: "('r, 'f) prims \<Rightarrow> ('r, 'f) molecule \<Rightarrow> ('r, 'f) molecule" where
  "perceiveBondsSimple P m =
     m\<lparr>bonds := bonds m @ perceive P (atoms m), calls := calls m @ [PerceiveBondsSimple]\<rparr>"

definition addCube :: "('r, 'f) prims \<Rightarrow> ('r, 'f) molecule \<Rightarrow> ('r, 'f) molecule" where
  "addCube P m =
     m\<lparr>cubes := cubes m @ [\<lparr>cube_min = (zero_double P, zero_double P, zero_double P),
                              dimensions = (0, 0, 0),
                              spacing = (zero_double P, zero_double P, zero_double P),
                              cube_data = []\<rparr>],
       calls := calls m @ [AddCube]\<rparr>"

text \<open>setLimits and setData on the handle addCube has just returned: the last cube.\<close>

definition upd_last :: "('a \<Rightarrow> 'a) \<Rightarrow> 'a list \<Rightarrow> 'a list" where
  "upd_last f xs = (case rev xs of [] \<Rightarrow> [] | x # r \<Rightarrow> rev r @ [f x])"

definition setLimits ::
  "'r vec3 \<Rightarrow> 32 word vec3 \<Rightarrow> 'r vec3 \<Rightarrow> ('r, 'f) molecule \<Rightarrow> ('r, 'f) molecule" where
  "setLimits mn dm sp m =
     m\<lparr>cubes := upd_last (\<lambda>c. c\<lparr>cube_min := mn, dimensions := dm, spacing := sp\<rparr>) (cubes m),
       calls := calls m @ [SetLimits]\<rparr>"

definition cube_setData :: "'f list \<Rightarrow> ('r, 'f) molecule \<Rightarrow> ('r, 'f) molecule" where
  "cube_setData vs m =
     m\<lparr>cubes := upd_last (\<lambda>c. c\<lparr>cube_data := vs\<rparr>) (cubes m),
       calls := calls m @ [CubeSetData]\<rparr>"

subsection \<open>GaussianCube::read\<close>

text \<open>
  What a call can come to: undefined behaviour, an exception leaving the function (with
  the Molecule as it is then), or a result.
\<close>

datatype ('a, 'm) res = Undefined | Threw 'm | Ok 'a

text \<open>Lines 47 to 58: the name, the title, nAtoms and min, and the rest of that line.\<close>

definition read_header ::
  "('r, 'f) prims \<Rightarrow> istream \<Rightarrow> ('r, 'f) molecule \<Rightarrow>
   istream \<times> string \<times> ('r, 'f) molecule \<times> 32 word option \<times> 'r option \<times> 'r option \<times> 'r option" where
  "read_header P in0 molecule =
     (case getline in0 [] of (in1, line1) \<Rightarrow>
      case getline in1 line1 of (in2, line2) \<Rightarrow>
      case extraction scan_int in2 None of (in3, nAtoms) \<Rightarrow>
      case extraction (scan_double P) in3 None of (in4, min0) \<Rightarrow>
      case extraction (scan_double P) in4 None of (in5, min1) \<Rightarrow>
      case extraction (scan_double P) in5 None of (in6, min2) \<Rightarrow>
      case getline in6 line2 of (in7, line3) \<Rightarrow>
        (in7, line3, setData_name line1 molecule, nAtoms, min0, min1, min2))"

text \<open>
  One round of the loop of lines 61 to 67. \<open>list[0]\<close> and \<open>list[i + 1]\<close> are
  unchecked: with fewer than \<open>i + 2\<close> fields the behaviour is undefined.
\<close>

definition read_axis ::
  "('r, 'f) prims \<Rightarrow> nat \<Rightarrow> istream \<times> string \<Rightarrow> (istream \<times> string \<times> 32 word \<times> 'r) option" where
  "read_axis P i st =
     (case getline (fst st) (snd st) of (in1, line1) \<Rightarrow>
      let line2 = trimmed line1;
          list = split line2 (CHR '' '')
      in if length list \<le> i + 1 then None
         else Some (in1, line2, lexicalCast_int P (list ! 0), lexicalCast_double P (list ! (i + 1))))"

definition read_axes ::
  "('r, 'f) prims \<Rightarrow> istream \<times> string \<Rightarrow> (istream \<times> string \<times> 32 word vec3 \<times> 'r vec3) option" where
  "read_axes P st =
     (case read_axis P 0 st of
        None \<Rightarrow> None
      | Some (in1, line1, d0, s0) \<Rightarrow>
          (case read_axis P 1 (in1, line1) of
             None \<Rightarrow> None
           | Some (in2, line2, d1, s1) \<Rightarrow>
               (case read_axis P 2 (in2, line2) of
                  None \<Rightarrow> None
                | Some (in3, line3, d2, s2) \<Rightarrow> Some (in3, line3, (d0, d1, d2), (s0, s1, s2)))))"

text \<open>
  The loop of lines 71 to 81, for the given number of rounds. \<open>list[0]\<close> and
  \<open>list[2]\<close> to \<open>list[4]\<close> are unchecked.
\<close>

fun read_atoms ::
  "('r, 'f) prims \<Rightarrow> nat \<Rightarrow> istream \<times> string \<times> ('r, 'f) molecule \<Rightarrow>
   (istream \<times> string \<times> ('r, 'f) molecule) option" where
  "read_atoms P 0 st = Some st"
| "read_atoms P (Suc n) (in0, line0, mol) =
     (case getline in0 line0 of (in1, line1) \<Rightarrow>
      let line2 = trimmed line1;
          list = split line2 (CHR '' '')
      in if length list \<le> 4 then None
         else let atomNum = lexicalCast_short P (list ! 0);
                  mol1 = addAtom P (ucast atomNum) mol;
                  pos = (lexicalCast_double P (list ! 2), lexicalCast_double P (list ! 3),
                         lexicalCast_double P (list ! 4));
                  mol2 = setPosition3d (vscale P pos (BOHR_TO_ANGSTROM P)) mol1
              in read_atoms P n (in1, line2, mol2))"

text \<open>Lines 89 and 90: nCubes extractions into moList, of which only the stream keeps a trace.\<close>

fun read_moList :: "('r, 'f) prims \<Rightarrow> nat \<Rightarrow> istream \<Rightarrow> istream" where
  "read_moList P 0 in0 = in0"
| "read_moList P (Suc n) in0 = read_moList P n (fst (extraction (scan_uint P) in0 (Some 0)))"

text \<open>
  Line 87, \<open>in >> nCubes\<close>: the value of nCubes afterwards. nCubes starts as 1 and
  keeps that value when the sentry fails.
\<close>

definition count_field :: "('r, 'f) prims \<Rightarrow> istream \<Rightarrow> 32 word" where
  "count_field P in0 =
     (case snd (extraction (scan_uint P) in0 (Some 1)) of None \<Rightarrow> 1 | Some n \<Rightarrow> n)"

text \<open>Lines 85 to 93.\<close>

definition read_nCubes ::
  "('r, 'f) prims \<Rightarrow> 32 word \<Rightarrow> istream \<times> string \<Rightarrow> istream \<times> string \<times> 32 word" where
  "read_nCubes P nAtoms st =
     (if sint nAtoms < 0 then
        (let nCubes = count_field P (fst st);
             in1 = fst (extraction (scan_uint P) (fst st) (Some 1))
         in case getline (read_moList P (unat nCubes) in1) (snd st) of (in2, line2) \<Rightarrow>
              (in2, line2, nCubes))
      else (fst st, snd st, 1))"

text \<open>The product of two ints; signed overflow is undefined.\<close>

definition int_times :: "32 word \<Rightarrow> 32 word \<Rightarrow> 32 word option" where
  "int_times a b =
     (let p = sint a * sint b
      in if - 2147483648 \<le> p \<and> p \<le> 2147483647 then Some (word_of_int p) else None)"

definition voxel_count :: "32 word vec3 \<Rightarrow> 32 word option" where
  "voxel_count dims =
     (case dims of (d0, d1, d2) \<Rightarrow>
        (case int_times d0 d1 of None \<Rightarrow> None | Some p \<Rightarrow> int_times p d2))"

text \<open>Lines 111 and 112: \<open>in >> value\<close> for every element of the resized vector.\<close>

fun read_values :: "('r, 'f) prims \<Rightarrow> istream \<Rightarrow> 'f list \<Rightarrow> istream \<times> 'f list" where
  "read_values P in0 [] = (in0, [])"
| "read_values P in0 (v # vs) =
     (case extraction (scan_float P) in0 (Some v) of (in1, v1) \<Rightarrow>
      case read_values P in1 vs of (in2, vs2) \<Rightarrow>
        (in2, (case v1 of None \<Rightarrow> v | Some w \<Rightarrow> w) # vs2))"

text \<open>
  The loop of lines 103 to 116. \<open>values.resize\<close> takes the int product as a size_t: a
  negative product is a size beyond max_size and resize throws std::length_error, which
  read does not catch. The new elements are value-initialised floats. A machine that
  runs out of memory on a large vector is not modelled.
\<close>

fun read_cubes ::
  "('r, 'f) prims \<Rightarrow> nat \<Rightarrow> 'r vec3 \<Rightarrow> 32 word vec3 \<Rightarrow> 'r vec3 \<Rightarrow>
   istream \<times> string \<times> ('r, 'f) molecule \<Rightarrow>
   (istream \<times> string \<times> ('r, 'f) molecule, ('r, 'f) molecule) res" where
  "read_cubes P 0 mn dims sp st = Ok st"
| "read_cubes P (Suc n) mn dims sp (in0, line0, mol) =
     (let mol1 = setLimits mn dims sp (addCube P mol)
      in case voxel_count dims of
           None \<Rightarrow> Undefined
         | Some p \<Rightarrow>
             if sint p < 0 then Threw mol1
             else (case read_values P in0 (replicate (nat (sint p)) (zero_float P)) of
                     (in1, values) \<Rightarrow>
                   case getline in1 line0 of (in2, line2) \<Rightarrow>
                     read_cubes P n mn dims sp (in2, line2, cube_setData values mol1)))"

text \<open>
  GaussianCube::read. \<open>abs(nAtoms)\<close> is undefined for the least int; nAtoms and min
  are read where the source reads them, and a read of one that no extraction has set is
  undefined. The only return statement is \<open>return true\<close>.
\<close>

definition read_grids ::
  "('r, 'f) prims \<Rightarrow> 32 word \<Rightarrow> 'r option \<times> 'r option \<times> 'r option \<Rightarrow> 32 word vec3 \<Rightarrow> 'r vec3 \<Rightarrow>
   istream \<times> string \<times> ('r, 'f) molecule \<Rightarrow>
   (bool \<times> ('r, 'f) molecule, ('r, 'f) molecule) res" where
  "read_grids P nCubes mn dims sp st =
     (case mn of
        (Some m0, Some m1, Some m2) \<Rightarrow>
          (case read_cubes P (unat nCubes) (vscale P (m0, m1, m2) (BOHR_TO_ANGSTROM P)) dims
                  (vscale P sp (BOHR_TO_ANGSTROM P)) st of
             Undefined \<Rightarrow> Undefined
           | Threw m \<Rightarrow> Threw m
           | Ok (in5, line5, mol4) \<Rightarrow> Ok (True, mol4))
      | _ \<Rightarrow> Undefined)"

definition GaussianCube_read ::
  "('r, 'f) prims \<Rightarrow> istream \<Rightarrow> ('r, 'f) molecule \<Rightarrow>
   (bool \<times> ('r, 'f) molecule, ('r, 'f) molecule) res" where
  "GaussianCube_read P in0 molecule =
     (case read_header P in0 molecule of (in1, line1, mol1, nAtoms, mn) \<Rightarrow>
        (case read_axes P (in1, line1) of
           None \<Rightarrow> Undefined
         | Some (in2, line2, dims, sp) \<Rightarrow>
             (case nAtoms of
                None \<Rightarrow> Undefined
              | Some nA \<Rightarrow>
                  if sint nA = - 2147483648 then Undefined
                  else (case read_atoms P (nat \<bar>sint nA\<bar>) (in2, line2, mol1) of
                          None \<Rightarrow> Undefined
                        | Some (in3, line3, mol2) \<Rightarrow>
                            (case read_nCubes P nA (in3, line3) of (in4, line4, nCubes) \<Rightarrow>
                               read_grids P nCubes mn dims sp
                                 (in4, line4, perceiveBondsSimple P mol2))))))"

subsection \<open>GaussianCube::write\<close>

text \<open>The output stream is the text written so far. A field of width w is padded on the left.\<close>

definition setw_right :: "nat \<Rightarrow> string \<Rightarrow> string" where
  "setw_right w s = replicate (w - length s) (CHR '' '') @ s"

definition digit_char :: "int \<Rightarrow> char" where
  "digit_char d = ''0123456789'' ! nat d"

text \<open>The decimal numeral of a number that is not negative.\<close>

function dec :: "int \<Rightarrow> string" where
  "dec n = (if n < 10 then [digit_char n] else dec (n div 10) @ [digit_char (n mod 10)])"
  by pat_completeness auto
termination
  by (relation "measure nat") auto

declare dec.simps [simp del]

definition writeFixedFloat :: "('r, 'f) prims \<Rightarrow> string \<Rightarrow> 'r \<Rightarrow> string" where
  "writeFixedFloat P out number = out @ setw_right 12 (fixed6 P number)"

definition writeFixedInt :: "string \<Rightarrow> 32 word \<Rightarrow> string" where
  "writeFixedInt out number = out @ setw_right 5 (dec (uint number))"

definition banner :: string where
  "banner = ''Gaussian Cube file generated by Avogadro.''"

text \<open>Lines 161 to 177: the axis line of axis i.\<close>

definition write_axis :: "('r, 'f) prims \<Rightarrow> string \<Rightarrow> 32 word \<Rightarrow> 'r \<Rightarrow> 'r \<Rightarrow> 'r \<Rightarrow> string" where
  "write_axis P out d a b c =
     writeFixedFloat P (writeFixedFloat P (writeFixedFloat P (writeFixedInt out d) a) b) c
       @ [newline]"

text \<open>The loop of lines 179 to 192; an invalid atom ends the call with false.\<close>

fun write_atoms :: "('r, 'f) prims \<Rightarrow> string \<Rightarrow> 'r atom list \<Rightarrow> bool \<times> string" where
  "write_atoms P out [] = (True, out)"
| "write_atoms P out (a # as) =
     (if \<not> isValid a then (False, out)
      else case position3d a of (x, y, z) \<Rightarrow>
        write_atoms P
          (writeFixedFloat P
             (writeFixedFloat P
                (writeFixedFloat P
                   (writeFixedFloat P (writeFixedInt out (ucast (atomicNumber a)))
                      (zero_double P))
                   (mul P x (ANGSTROM_TO_BOHR P)))
                (mul P y (ANGSTROM_TO_BOHR P)))
             (mul P z (ANGSTROM_TO_BOHR P))
           @ [newline])
          as)"

text \<open>The loop of lines 196 to 201, from index i on.\<close>

fun write_values :: "('r, 'f) prims \<Rightarrow> string \<Rightarrow> nat \<Rightarrow> 'f list \<Rightarrow> string" where
  "write_values P out i [] = out"
| "write_values P out i (v # vs) =
     write_values P
       (out @ setw_right 13 (sci5 P v) @ (if i mod 6 = 5 then [newline] else []))
       (Suc i) vs"

text \<open>
  GaussianCube::write. The result is \<open>None\<close> when the call does not return: the index of
  the last loop is an unsigned int, which never reaches a size of 2^32 or more.
\<close>

definition GaussianCube_write ::
  "('r, 'f) prims \<Rightarrow> string \<Rightarrow> ('r, 'f) molecule \<Rightarrow> (bool \<times> string) option" where
  "GaussianCube_write P outStream mol =
     (if length (cubes mol) = 0 then Some (False, outStream)
      else
        let cube = hd (cubes mol);
            mn = vscale P (cube_min cube) (ANGSTROM_TO_BOHR P);
            sp = vscale P (spacing cube) (ANGSTROM_TO_BOHR P);
            dims = dimensions cube;
            z = zero_double P;
            out1 = outStream @ banner @ [newline];
            out2 = (if length (data_name mol) \<noteq> 0 then out1 @ data_name mol @ [newline]
                    else out1 @ [newline]);
            numAtoms = length (atoms mol);
            out3 = writeFixedInt
                     (writeFixedFloat P
                        (writeFixedFloat P
                           (writeFixedFloat P (writeFixedInt out2 (of_nat numAtoms)) (fst mn))
                           (fst (snd mn)))
                        (snd (snd mn)))
                     1
                   @ [newline];
            out4 = write_axis P out3 (fst dims) (fst sp) z z;
            out5 = write_axis P out4 (fst (snd dims)) z (fst (snd sp)) z;
            out6 = write_axis P out5 (snd (snd dims)) z z (snd (snd sp))
        in case write_atoms P out6 (atoms mol) of
             (ok, out7) \<Rightarrow>
               if \<not> ok then Some (False, out7)
               else if int (length (cube_data cube)) \<ge> 4294967296 then None
               else Some (True, write_values P out7 0 (cube_data cube)))"

subsection \<open>A platform to run the functions on\<close>

text \<open>
  To evaluate the two functions on a concrete text, the operations of the platform are
  instantiated with exact decimal arithmetic: a double or a float is the rational number
  it stands for, scanned from and printed as a decimal numeral. On the numerals used
  below (0, 1, small integers and halves) the C++ library gives the same texts and values.
  A lexical cast is the extraction from a stream holding the token, and 0 for a token
  that holds no number; a short is cut to its range. The factor from Bohr to Angstrom is
  the one the spec gives, 0.529177210903. The bond inference of this platform infers no
  bond.
\<close>

definition scan_decimal :: "string \<Rightarrow> rat \<times> bool \<times> string" where
  "scan_decimal cs =
     (let neg = (cs \<noteq> [] \<and> hd cs = CHR ''-'');
          cs1 = (if cs \<noteq> [] \<and> (hd cs = CHR ''-'' \<or> hd cs = CHR ''+'') then tl cs else cs);
          ip = takeWhile isdigit cs1;
          r1 = dropWhile isdigit cs1;
          fp = (if r1 \<noteq> [] \<and> hd r1 = CHR ''.'' then takeWhile isdigit (tl r1) else []);
          r2 = (if r1 \<noteq> [] \<and> hd r1 = CHR ''.'' then dropWhile isdigit (tl r1) else r1);
          m = (of_int (dec_value (ip @ fp)) :: rat) / 10 ^ length fp;
          hasexp = (r2 \<noteq> [] \<and> (hd r2 = CHR ''e'' \<or> hd r2 = CHR ''E''));
          r3 = (if hasexp then tl r2 else r2);
          eneg = (hasexp \<and> r3 \<noteq> [] \<and> hd r3 = CHR ''-'');
          r4 = (if hasexp \<and> r3 \<noteq> [] \<and> (hd r3 = CHR ''-'' \<or> hd r3 = CHR ''+'') then tl r3 else r3);
          ed = (if hasexp then takeWhile isdigit r4 else []);
          r5 = (if hasexp then dropWhile isdigit r4 else r2);
          v = (if eneg then m / 10 ^ nat (dec_value ed) else m * 10 ^ nat (dec_value ed))
      in if ip @ fp = [] then (0, False, r2)
         else if hasexp \<and> ed = [] then (0, False, r5)
         else (if neg then - v else v, True, r5))"

definition scan_unsigned :: "string \<Rightarrow> 32 word \<times> bool \<times> string" where
  "scan_unsigned cs =
     (let neg = (cs \<noteq> [] \<and> hd cs = CHR ''-'');
          cs1 = (if cs \<noteq> [] \<and> (hd cs = CHR ''-'' \<or> hd cs = CHR ''+'') then tl cs else cs);
          ds = takeWhile isdigit cs1;
          r = dropWhile isdigit cs1;
          n = dec_value ds
      in if ds = [] then (0, False, cs1)
         else if n > 4294967295 then (word_of_int 4294967295, False, r)
         else (if neg then - word_of_int n else word_of_int n, True, r))"

definition cast_with :: "(string \<Rightarrow> 'a \<times> bool \<times> string) \<Rightarrow> 'a \<Rightarrow> string \<Rightarrow> 'a" where
  "cast_with scan z s = (case snd (extraction scan (istream_of s) None) of None \<Rightarrow> z | Some v \<Rightarrow> v)"

definition pad_zeros :: "nat \<Rightarrow> string \<Rightarrow> string" where
  "pad_zeros w s = replicate (w - length s) (CHR ''0'') @ s"

definition round_half_even :: "rat \<Rightarrow> int" where
  "round_half_even x =
     (let f = \<lfloor>x\<rfloor>; d = x - of_int f
      in if d < 1 / 2 then f else if d > 1 / 2 then f + 1 else if even f then f else f + 1)"

definition decimal_fixed6 :: "rat \<Rightarrow> string" where
  "decimal_fixed6 x =
     (let n = round_half_even (\<bar>x\<bar> * 1000000)
      in (if x < 0 then ''-'' else []) @ dec (n div 1000000) @ ''.''
           @ pad_zeros 6 (dec (n mod 1000000)))"

definition pow10 :: "int \<Rightarrow> rat" where
  "pow10 e = (if e \<ge> 0 then 10 ^ nat e else 1 / 10 ^ nat (- e))"

definition decimal_sci5 :: "rat \<Rightarrow> string" where
  "decimal_sci5 x =
     (if x = 0 then ''0.00000e+00''
      else
        let e0 = (case find (\<lambda>e. pow10 e \<le> \<bar>x\<bar>) (rev [- 60 .. 60]) of None \<Rightarrow> - 60 | Some e \<Rightarrow> e);
            m0 = round_half_even (\<bar>x\<bar> / pow10 e0 * 100000);
            e = (if m0 \<ge> 1000000 then e0 + 1 else e0);
            m = (if m0 \<ge> 1000000 then m0 div 10 else m0)
        in (if x < 0 then ''-'' else []) @ dec (m div 100000) @ ''.''
             @ pad_zeros 5 (dec (m mod 100000)) @ ''e'' @ (if e < 0 then ''-'' else ''+'')
             @ pad_zeros 2 (dec \<bar>e\<bar>))"

definition decimal_prims :: "(rat, rat) prims" where
  "decimal_prims =
     \<lparr>scan_uint = scan_unsigned,
      scan_double = scan_decimal,
      scan_float = scan_decimal,
      lexicalCast_int = cast_with scan_int 0,
      lexicalCast_short =
        (\<lambda>s. word_of_int (max (- 32768) (min 32767 (sint (cast_with scan_int 0 s))))),
      lexicalCast_double = cast_with scan_decimal 0,
      mul = (\<lambda>x y. x * y),
      BOHR_TO_ANGSTROM = 529177210903 / 1000000000000,
      ANGSTROM_TO_BOHR = 1000000000000 / 529177210903,
      zero_double = 0,
      zero_float = 0,
      fixed6 = decimal_fixed6,
      sci5 = decimal_sci5,
      perceive = (\<lambda>as. [])\<rparr>"

definition empty_molecule :: "(rat, rat) molecule" where
  "empty_molecule = \<lparr>name_data = None, atoms = [], bonds = [], cubes = [], calls = []\<rparr>"

subsection \<open>Notions used in the statements\<close>

text \<open>
  A grid as read hands it to the Molecule: the limits it was given, and a buffer whose
  length is the product of the three dimensions, an int that is not negative.
\<close>

definition grid_of :: "'r vec3 \<Rightarrow> 32 word vec3 \<Rightarrow> 'r vec3 \<Rightarrow> ('r, 'f) cube \<Rightarrow> bool" where
  "grid_of mn d sp c =
     (cube_min c = mn \<and> dimensions c = d \<and> spacing c = sp
      \<and> (case voxel_count d of None \<Rightarrow> False
          | Some p \<Rightarrow> 0 \<le> sint p \<and> int (length (cube_data c)) = sint p))"

text \<open>
  What a call of read has read when it comes to use it: the value of nAtoms after line 55,
  the dimensions of the three axis lines, and the stream as the atom block leaves it,
  where the count of a multi-cube file is read.
\<close>

definition nAtoms_field :: "('r, 'f) prims \<Rightarrow> istream \<Rightarrow> ('r, 'f) molecule \<Rightarrow> 32 word option" where
  "nAtoms_field P in0 m = (case read_header P in0 m of (in1, line1, mol1, nAtoms, mn) \<Rightarrow> nAtoms)"

definition dims_field ::
  "('r, 'f) prims \<Rightarrow> istream \<Rightarrow> ('r, 'f) molecule \<Rightarrow> 32 word vec3 option" where
  "dims_field P in0 m =
     (case read_header P in0 m of (in1, line1, mol1, nAtoms, mn) \<Rightarrow>
        (case read_axes P (in1, line1) of
           None \<Rightarrow> None
         | Some (in2, line2, dims, sp) \<Rightarrow> Some dims))"

definition stream_after_atoms ::
  "('r, 'f) prims \<Rightarrow> istream \<Rightarrow> ('r, 'f) molecule \<Rightarrow> istream option" where
  "stream_after_atoms P in0 m =
     (case read_header P in0 m of (in1, line1, mol1, nAtoms, mn) \<Rightarrow>
        (case read_axes P (in1, line1) of
           None \<Rightarrow> None
         | Some (in2, line2, dims, sp) \<Rightarrow>
             (case nAtoms of
                None \<Rightarrow> None
              | Some nA \<Rightarrow>
                  (case read_atoms P (nat \<bar>sint nA\<bar>) (in2, line2, mol1) of
                     None \<Rightarrow> None
                   | Some (in3, line3, mol2) \<Rightarrow> Some in3))))"

subsection \<open>Texts and molecules to run the functions on\<close>

text \<open>
  The first scenario of the spec: two atoms and a grid of 2 x 2 x 2 values.
\<close>

definition water_text :: string where
  "water_text = ''water\<newline>title\<newline>  2 0 0 0\<newline>2 0.5 0 0\<newline>2 0 0.5 0\<newline>2 0 0 0.5\<newline>6 0.0 0.0 0.0 0.0\<newline>8 0.0 1.0 0.0 0.0\<newline>0 1 2 3 4 5 6 7''"

definition water_atoms :: "rat atom list" where
  "water_atoms =
     [\<lparr>atomicNumber = 6, position3d = (0, 0, 0), isValid = True\<rparr>,
      \<lparr>atomicNumber = 8, position3d = (529177210903 / 1000000000000, 0, 0), isValid = True\<rparr>]"

definition water_calls :: "call list" where
  "water_calls = [SetData, AddAtom, SetPosition3d, AddAtom, SetPosition3d,
     PerceiveBondsSimple, AddCube, SetLimits, CubeSetData]"

definition half_bohr :: "rat vec3" where
  "half_bohr = (529177210903 / 2000000000000, 529177210903 / 2000000000000,
     529177210903 / 2000000000000)"

definition water_molecule :: "rat list \<Rightarrow> (rat, rat) molecule" where
  "water_molecule vs =
     \<lparr>name_data = Some ''water'', atoms = water_atoms, bonds = [],
      cubes = [\<lparr>cube_min = (0, 0, 0), dimensions = (2, 2, 2), spacing = half_bohr,
                cube_data = vs\<rparr>],
      calls = water_calls\<rparr>"



text \<open>The same text cut after the third voxel value, and with a voxel token that is no number.\<close>

definition truncated_text :: string where
  "truncated_text = ''water\<newline>title\<newline>  2 0 0 0\<newline>2 0.5 0 0\<newline>2 0 0.5 0\<newline>2 0 0 0.5\<newline>6 0.0 0.0 0.0 0.0\<newline>8 0.0 1.0 0.0 0.0\<newline>0 1 2''"

definition malformed_text :: string where
  "malformed_text = ''water\<newline>title\<newline>  2 0 0 0\<newline>2 0.5 0 0\<newline>2 0 0.5 0\<newline>2 0 0 0.5\<newline>6 0.0 0.0 0.0 0.0\<newline>8 0.0 1.0 0.0 0.0\<newline>5 4 x 3 2 1 0 9''"

text \<open>The same header with 0 as the first dimension, and no voxel value.\<close>

definition zero_dim_text :: string where
  "zero_dim_text = ''water\<newline>title\<newline>  2 0 0 0\<newline>0 0.5 0 0\<newline>2 0 0.5 0\<newline>2 0 0 0.5\<newline>6 0.0 0.0 0.0 0.0\<newline>8 0.0 1.0 0.0 0.0\<newline>''"

text \<open>
  A multi-cube text, after the second scenario of the spec: nAtoms is -1, two grids
  follow, and the off-diagonal components of the axis lines are 7.
\<close>

definition multi_text :: string where
  "multi_text = ''mo\<newline>title\<newline> -1 0 0 0\<newline>1 0.5 7 7\<newline>2 7 0.5 7\<newline>1 7 7 0.5\<newline>1 0.0 0.0 0.0 0.0\<newline> 2 5 6\<newline>1 2\<newline>3 4\<newline>''"


definition multi_molecule :: "(rat, rat) molecule" where
  "multi_molecule =
     \<lparr>name_data = Some ''mo'',
      atoms = [\<lparr>atomicNumber = 1, position3d = (0, 0, 0), isValid = True\<rparr>],
      bonds = [],
      cubes = [\<lparr>cube_min = (0, 0, 0), dimensions = (1, 2, 1), spacing = half_bohr,
                cube_data = [1, 2]\<rparr>,
               \<lparr>cube_min = (0, 0, 0), dimensions = (1, 2, 1), spacing = half_bohr,
                cube_data = [3, 4]\<rparr>],
      calls = [SetData, AddAtom, SetPosition3d, PerceiveBondsSimple, AddCube, SetLimits,
               CubeSetData, AddCube, SetLimits, CubeSetData]\<rparr>"

text \<open>A molecule of one atom and one grid of one value, its text, and what read makes of the text.\<close>

definition oxygen_molecule :: "string \<Rightarrow> call list \<Rightarrow> (rat, rat) molecule" where
  "oxygen_molecule nm cs =
     \<lparr>name_data = Some nm,
      atoms = [\<lparr>atomicNumber = 8, position3d = (0, 0, 0), isValid = True\<rparr>],
      bonds = [],
      cubes = [\<lparr>cube_min = (0, 0, 0), dimensions = (1, 1, 1), spacing = (0, 0, 0),
                cube_data = [0]\<rparr>],
      calls = cs\<rparr>"

definition oxygen_body :: string where
  "oxygen_body = ''    1    0.000000    0.000000    0.000000    1\<newline>    1    0.000000    0.000000    0.000000\<newline>    1    0.000000    0.000000    0.000000\<newline>    1    0.000000    0.000000    0.000000\<newline>    8    0.000000    0.000000    0.000000    0.000000\<newline>  0.00000e+00''"

definition oxygen_text :: "string \<Rightarrow> string" where
  "oxygen_text nm = ''Gaussian Cube file generated by Avogadro.\<newline>'' @ nm @ ''\<newline>'' @ oxygen_body"

definition oxygen_calls :: "call list" where
  "oxygen_calls = [SetData, AddAtom, SetPosition3d, PerceiveBondsSimple, AddCube, SetLimits,
     CubeSetData]"

text \<open>A molecule without atoms whose name holds line breaks, and its text.\<close>

definition lines_name :: string where
  "lines_name = ''x\<newline>-1 0 0 0\<newline>1 1 0 0\<newline>1 0 1 0\<newline>1 0 0 1\<newline>1 0 0 0 0\<newline>2 5 6''"

definition lines_molecule :: "(rat, rat) molecule" where
  "lines_molecule =
     \<lparr>name_data = Some lines_name, atoms = [], bonds = [],
      cubes = [\<lparr>cube_min = (0, 0, 0), dimensions = (1, 1, 1), spacing = (0, 0, 0),
                cube_data = [0]\<rparr>],
      calls = []\<rparr>"

definition lines_text :: string where
  "lines_text = ''Gaussian Cube file generated by Avogadro.\<newline>'' @ lines_name
     @ ''\<newline>    0    0.000000    0.000000    0.000000    1\<newline>    1    0.000000    0.000000    0.000000\<newline>    1    0.000000    0.000000    0.000000\<newline>    1    0.000000    0.000000    0.000000\<newline>  0.00000e+00''"

definition bohr :: "rat vec3" where
  "bohr = (529177210903 / 1000000000000, 529177210903 / 1000000000000,
     529177210903 / 1000000000000)"

definition lines_read :: "(rat, rat) molecule" where
  "lines_read =
     \<lparr>name_data = Some ''Gaussian Cube file generated by Avogadro.'',
      atoms = [\<lparr>atomicNumber = 1, position3d = (0, 0, 0), isValid = True\<rparr>],
      bonds = [],
      cubes = [\<lparr>cube_min = (0, 0, 0), dimensions = (1, 1, 1), spacing = bohr,
                cube_data = [0]\<rparr>,
               \<lparr>cube_min = (0, 0, 0), dimensions = (1, 1, 1), spacing = bohr,
                cube_data = [1]\<rparr>],
      calls = [SetData, AddAtom, SetPosition3d, PerceiveBondsSimple, AddCube, SetLimits,
               CubeSetData, AddCube, SetLimits, CubeSetData]\<rparr>"

text \<open>
  The text of one voxel value in the last loop of write: the value at index j, padded to
  13 characters, and a line break after it when j mod 6 is 5.
\<close>

definition voxel_field :: "('r, 'f) prims \<Rightarrow> nat \<times> 'f \<Rightarrow> string" where
  "voxel_field P jv =
     setw_right 13 (sci5 P (snd jv)) @ (if fst jv mod 6 = 5 then [newline] else [])"





section \<open>Properties\<close>

subsection \<open>Evaluation on concrete texts\<close>

lemma read_water:
  "GaussianCube_read decimal_prims (istream_of water_text) empty_molecule
     = Ok (True, water_molecule [0, 1, 2, 3, 4, 5, 6, 7])"
  by code_simp

lemma read_truncated:
  "GaussianCube_read decimal_prims (istream_of truncated_text) empty_molecule
     = Ok (True, water_molecule [0, 1, 2, 0, 0, 0, 0, 0])"
  by code_simp

lemma read_malformed:
  "GaussianCube_read decimal_prims (istream_of malformed_text) empty_molecule
     = Ok (True, water_molecule [5, 4, 0, 0, 0, 0, 0, 0])"
  by code_simp

lemma read_zero_dim:
  "GaussianCube_read decimal_prims (istream_of zero_dim_text) empty_molecule
     = Ok (True, (water_molecule [])\<lparr>cubes :=
         [\<lparr>cube_min = (0, 0, 0), dimensions = (0, 2, 2), spacing = half_bohr, cube_data = []\<rparr>]\<rparr>)"
  by code_simp

lemma read_multi:
  "GaussianCube_read decimal_prims (istream_of multi_text) empty_molecule = Ok (True, multi_molecule)"
  by code_simp

lemma write_oxygen:
  "GaussianCube_write decimal_prims [] (oxygen_molecule ''water'' [])
     = Some (True, oxygen_text ''water'')"
  by code_simp

lemma read_oxygen:
  "GaussianCube_read decimal_prims (istream_of (oxygen_text ''water'')) empty_molecule
     = Ok (True, oxygen_molecule banner oxygen_calls)"
  by code_simp




lemma write_lines:
  "GaussianCube_write decimal_prims [] lines_molecule = Some (True, lines_text)"
  by code_simp

lemma read_lines:
  "GaussianCube_read decimal_prims (istream_of lines_text) empty_molecule = Ok (True, lines_read)"
  by code_simp

subsection \<open>The writer without a cube\<close>

text \<open>
  C3. When the Molecule has no cube, write returns false and the output stream is what
  it was before the call: nothing has been written.
\<close>

theorem write_without_cube:
  "cubes mol = [] \<Longrightarrow> GaussianCube_write P outStream mol = Some (False, outStream)"
  by (simp add: GaussianCube_write_def)

theorem write_without_cube_witness:
  "cubes empty_molecule = []
   \<and> GaussianCube_write decimal_prims [] empty_molecule = Some (False, [])"
proof -
  have h: "cubes empty_molecule = []" by (simp add: empty_molecule_def)
  from write_without_cube [OF h, of decimal_prims "[]"] h show ?thesis by simp
qed

subsection \<open>The loops of the reader\<close>

lemma read_values_length: "read_values P s vs = (s', vs') \<Longrightarrow> length vs' = length vs"
  by (induction vs arbitrary: s s' vs') (auto split: prod.splits)

lemma add_set_atom:
  "atoms (setPosition3d pos (addAtom P z m))
     = atoms m @ [\<lparr>atomicNumber = z, position3d = pos, isValid = True\<rparr>]"
  by (simp add: setPosition3d_def addAtom_def)

lemma add_set_atom_rest:
  "cubes (setPosition3d pos (addAtom P z m)) = cubes m"
  "name_data (setPosition3d pos (addAtom P z m)) = name_data m"
  "bonds (setPosition3d pos (addAtom P z m)) = bonds m"
  "calls (setPosition3d pos (addAtom P z m)) = calls m @ [AddAtom, SetPosition3d]"
  by (simp_all add: setPosition3d_def addAtom_def)

lemma read_atoms_effect:
  "read_atoms P n (s, l, m) = Some (s', l', m') \<Longrightarrow>
     (\<exists>new. atoms m' = atoms m @ new \<and> length new = n)
     \<and> cubes m' = cubes m \<and> name_data m' = name_data m \<and> bonds m' = bonds m
     \<and> calls m' = calls m @ concat (replicate n [AddAtom, SetPosition3d])"
proof (induction n arbitrary: s l m)
  case 0
  then show ?case by simp
next
  case (Suc n)
  obtain s1 l1 where g: "getline s l = (s1, l1)" by (cases "getline s l")
  let ?list = "split (trimmed l1) (CHR '' '')"
  let ?pos = "vscale P (lexicalCast_double P (?list ! 2), lexicalCast_double P (?list ! 3),
                 lexicalCast_double P (?list ! 4)) (BOHR_TO_ANGSTROM P)"
  let ?z = "ucast (lexicalCast_short P (?list ! 0)) :: 8 word"
  let ?m1 = "setPosition3d ?pos (addAtom P ?z m)"
  from Suc.prems g have len: "\<not> length ?list \<le> 4"
    by (auto simp: Let_def split: if_splits)
  with Suc.prems g have rec: "read_atoms P n (s1, trimmed l1, ?m1) = Some (s', l', m')"
    by (simp add: Let_def)
  from Suc.IH [OF rec] obtain new where
    new: "atoms m' = atoms ?m1 @ new" "length new = n"
    and rest: "cubes m' = cubes m" "name_data m' = name_data m" "bonds m' = bonds m"
      "calls m' = calls ?m1 @ concat (replicate n [AddAtom, SetPosition3d])"
    by (auto simp: add_set_atom_rest)
  let ?new = "\<lparr>atomicNumber = ?z, position3d = ?pos, isValid = True\<rparr> # new"
  from new have "atoms m' = atoms m @ ?new \<and> length ?new = Suc n"
    by (simp add: add_set_atom)
  then have "\<exists>new. atoms m' = atoms m @ new \<and> length new = Suc n" by blast
  with rest show ?case by (simp add: add_set_atom_rest)
qed

lemma new_cube:
  "cubes (cube_setData vs (setLimits mn d sp (addCube P m)))
     = cubes m @ [\<lparr>cube_min = mn, dimensions = d, spacing = sp, cube_data = vs\<rparr>]"
  by (simp add: cube_setData_def setLimits_def addCube_def upd_last_def)

lemma new_cube_rest:
  "atoms (cube_setData vs (setLimits mn d sp (addCube P m))) = atoms m"
  "name_data (cube_setData vs (setLimits mn d sp (addCube P m))) = name_data m"
  "bonds (cube_setData vs (setLimits mn d sp (addCube P m))) = bonds m"
  "calls (cube_setData vs (setLimits mn d sp (addCube P m)))
     = calls m @ [AddCube, SetLimits, CubeSetData]"
  by (simp_all add: cube_setData_def setLimits_def addCube_def)

lemma new_cube_thrown:
  "atoms (setLimits mn d sp (addCube P m)) = atoms m"
  "name_data (setLimits mn d sp (addCube P m)) = name_data m"
  "bonds (setLimits mn d sp (addCube P m)) = bonds m"
  "calls (setLimits mn d sp (addCube P m)) = calls m @ [AddCube, SetLimits]"
  by (simp_all add: setLimits_def addCube_def)

lemma read_cubes_Ok:
  "read_cubes P n mn d sp (s, l, m) = Ok (s', l', m') \<Longrightarrow>
     (\<exists>new. cubes m' = cubes m @ new \<and> length new = n \<and> list_all (grid_of mn d sp) new)
     \<and> atoms m' = atoms m \<and> name_data m' = name_data m \<and> bonds m' = bonds m
     \<and> calls m' = calls m @ concat (replicate n [AddCube, SetLimits, CubeSetData])"
proof (induction n arbitrary: s l m)
  case 0
  then show ?case by simp
next
  case (Suc n)
  let ?m1 = "setLimits mn d sp (addCube P m)"
  from Suc.prems obtain p where p: "voxel_count d = Some p" "\<not> sint p < 0"
    by (auto simp: Let_def split: option.splits if_splits)
  obtain s1 vs where rv: "read_values P s (replicate (nat (sint p)) (zero_float P)) = (s1, vs)"
    by (cases "read_values P s (replicate (nat (sint p)) (zero_float P))")
  obtain s2 l2 where g: "getline s1 l = (s2, l2)" by (cases "getline s1 l")
  from Suc.prems p rv g
  have rec: "read_cubes P n mn d sp (s2, l2, cube_setData vs ?m1) = Ok (s', l', m')"
    by (simp add: Let_def)
  from read_values_length [OF rv]
  have len: "length vs = nat (sint p)" by simp
  with p have grid: "grid_of mn d sp \<lparr>cube_min = mn, dimensions = d, spacing = sp, cube_data = vs\<rparr>"
    by (simp add: grid_of_def)
  from Suc.IH [OF rec] obtain new where
    new: "cubes m' = cubes (cube_setData vs ?m1) @ new" "length new = n"
         "list_all (grid_of mn d sp) new"
    and rest: "atoms m' = atoms m" "name_data m' = name_data m" "bonds m' = bonds m"
         "calls m' = calls (cube_setData vs ?m1) @ concat (replicate n [AddCube, SetLimits, CubeSetData])"
    by (auto simp: new_cube_rest)
  let ?new = "\<lparr>cube_min = mn, dimensions = d, spacing = sp, cube_data = vs\<rparr> # new"
  from new grid have "cubes m' = cubes m @ ?new \<and> length ?new = Suc n \<and> list_all (grid_of mn d sp) ?new"
    by (simp add: new_cube)
  then have "\<exists>new. cubes m' = cubes m @ new \<and> length new = Suc n \<and> list_all (grid_of mn d sp) new"
    by blast
  with rest show ?case by (simp add: new_cube_rest)
qed

lemma read_cubes_Threw:
  "read_cubes P n mn d sp (s, l, m) = Threw m' \<Longrightarrow>
     atoms m' = atoms m \<and> name_data m' = name_data m \<and> bonds m' = bonds m
     \<and> (\<exists>j. calls m' = calls m @ concat (replicate j [AddCube, SetLimits, CubeSetData])
                @ [AddCube, SetLimits])"
proof (induction n arbitrary: s l m)
  case 0
  then show ?case by simp
next
  case (Suc n)
  let ?m1 = "setLimits mn d sp (addCube P m)"
  from Suc.prems obtain p where p: "voxel_count d = Some p"
    by (auto simp: Let_def split: option.splits)
  show ?case
  proof (cases "sint p < 0")
    case True
    with Suc.prems p have "m' = ?m1" by (simp add: Let_def)
    then have "atoms m' = atoms m \<and> name_data m' = name_data m \<and> bonds m' = bonds m
      \<and> calls m' = calls m @ concat (replicate 0 [AddCube, SetLimits, CubeSetData]) @ [AddCube, SetLimits]"
      by (simp add: new_cube_thrown)
    then show ?thesis by blast
  next
    case False
    obtain s1 vs where rv: "read_values P s (replicate (nat (sint p)) (zero_float P)) = (s1, vs)"
      by (cases "read_values P s (replicate (nat (sint p)) (zero_float P))")
    obtain s2 l2 where g: "getline s1 l = (s2, l2)" by (cases "getline s1 l")
    from Suc.prems p False rv g
    have rec: "read_cubes P n mn d sp (s2, l2, cube_setData vs ?m1) = Threw m'"
      by (simp add: Let_def)
    from Suc.IH [OF rec] obtain j where
      j: "calls m' = calls (cube_setData vs ?m1) @ concat (replicate j [AddCube, SetLimits, CubeSetData]) @ [AddCube, SetLimits]"
      and rest: "atoms m' = atoms m" "name_data m' = name_data m" "bonds m' = bonds m"
      by (auto simp: new_cube_rest)
    from j have "calls m' = calls m @ concat (replicate (Suc j) [AddCube, SetLimits, CubeSetData]) @ [AddCube, SetLimits]"
      by (simp add: new_cube_rest)
    with rest show ?thesis by blast
  qed
qed

lemma sint_word_of_int_32:
  "- 2147483648 \<le> x \<Longrightarrow> x \<le> 2147483647 \<Longrightarrow> sint (word_of_int x :: 32 word) = x"
  by (simp add: signed_of_int signed_take_bit_int_eq_self)

lemma int_times_sint:
  assumes "int_times a b = Some q"
  shows "sint q = sint a * sint b"
proof -
  let ?p = "sint a * sint b"
  from assms have range: "- 2147483648 \<le> ?p" "?p \<le> 2147483647"
    by (auto simp: int_times_def Let_def split: if_splits)
  from assms have "q = word_of_int ?p"
    by (auto simp: int_times_def Let_def split: if_splits)
  with range show ?thesis by (metis sint_word_of_int_32)
qed

lemma voxel_count_zero:
  "voxel_count (d0, d1, d2) = Some p \<Longrightarrow> d0 = 0 \<or> d1 = 0 \<or> d2 = 0 \<Longrightarrow> sint p = 0"
  by (auto simp: voxel_count_def split: option.splits dest!: int_times_sint)

lemma read_header_molecule:
  "read_header P in0 m = (in1, line1, mol1, nAtoms, mn) \<Longrightarrow>
     atoms mol1 = atoms m \<and> cubes mol1 = cubes m \<and> bonds mol1 = bonds m
     \<and> calls mol1 = calls m @ [SetData]"
  by (auto simp: read_header_def setData_name_def split: prod.splits)

lemma read_stages:
  assumes hdr: "read_header P in0 m = (in1, line1, mol1, nAtoms, mn)"
    and res: "GaussianCube_read P in0 m \<noteq> Undefined"
  shows "\<exists>in2 line2 dims sp nA in3 line3 mol2 in4 line4 nCubes m0 m1 m2.
      read_axes P (in1, line1) = Some (in2, line2, dims, sp)
      \<and> nAtoms = Some nA \<and> sint nA \<noteq> - 2147483648
      \<and> read_atoms P (nat \<bar>sint nA\<bar>) (in2, line2, mol1) = Some (in3, line3, mol2)
      \<and> read_nCubes P nA (in3, line3) = (in4, line4, nCubes)
      \<and> mn = (Some m0, Some m1, Some m2)
      \<and> GaussianCube_read P in0 m =
          (case read_cubes P (unat nCubes) (vscale P (m0, m1, m2) (BOHR_TO_ANGSTROM P)) dims
                  (vscale P sp (BOHR_TO_ANGSTROM P)) (in4, line4, perceiveBondsSimple P mol2) of
             Undefined \<Rightarrow> Undefined
           | Threw x \<Rightarrow> Threw x
           | Ok (in5, line5, mol4) \<Rightarrow> Ok (True, mol4))"
  using res unfolding GaussianCube_read_def hdr read_grids_def
  by (cases mn) (auto split: option.splits if_splits prod.splits)

lemma read_nCubes_count:
  "read_nCubes P nA (in3, line3) = (in4, line4, nCubes) \<Longrightarrow>
     nCubes = (if sint nA < 0 then count_field P in3 else 1)"
  by (auto simp: read_nCubes_def Let_def split: if_splits prod.splits)

text \<open>
  Once the stream is not good, an extraction leaves its target alone: the voxel values
  that follow a failed extraction keep what \<open>values.resize\<close> put there.
\<close>

lemma extraction_not_good: "\<not> good s \<Longrightarrow> extraction scan s old = (s\<lparr>failbit := True\<rparr>, old)"
  by (simp add: extraction_def)

lemma read_values_not_good:
  "\<not> good s \<Longrightarrow> snd (read_values P s vs) = vs"
proof (induction vs arbitrary: s)
  case Nil
  then show ?case by simp
next
  case (Cons v vs)
  have ng: "\<not> good (s\<lparr>failbit := True\<rparr>)" by (simp add: good_def)
  from Cons.IH [OF ng] Cons.prems show ?case
    by (auto simp: extraction_not_good split: prod.splits)
qed

lemma read_result:
  assumes res: "GaussianCube_read P in0 m = Ok (b, m') \<or> GaussianCube_read P in0 m = Threw m'"
  shows "\<exists>nA in3 d mn sp st mol2 n.
      nAtoms_field P in0 m = Some nA \<and> stream_after_atoms P in0 m = Some in3
      \<and> dims_field P in0 m = Some d
      \<and> n = (if sint nA < 0 then unat (count_field P in3) else 1)
      \<and> (\<exists>new. atoms mol2 = atoms m @ new \<and> length new = nat \<bar>sint nA\<bar>)
      \<and> cubes mol2 = cubes m \<and> bonds mol2 = bonds m
      \<and> calls mol2 = calls m @ [SetData] @ concat (replicate (nat \<bar>sint nA\<bar>) [AddAtom, SetPosition3d])
      \<and> (GaussianCube_read P in0 m = Ok (b, m') \<longrightarrow>
            b \<and> (\<exists>st'. read_cubes P n mn d sp (fst st, snd st, perceiveBondsSimple P mol2)
                         = Ok (fst st', snd st', m')))
      \<and> (GaussianCube_read P in0 m = Threw m' \<longrightarrow>
            read_cubes P n mn d sp (fst st, snd st, perceiveBondsSimple P mol2) = Threw m')"
proof -
  obtain in1 line1 mol1 nAtoms mn0 where hdr: "read_header P in0 m = (in1, line1, mol1, nAtoms, mn0)"
    by (cases "read_header P in0 m") auto
  from res have "GaussianCube_read P in0 m \<noteq> Undefined" by auto
  from read_stages [OF hdr this] obtain in2 line2 dims sp nA in3 line3 mol2 in4 line4 nCubes m0 m1 m2
    where ax: "read_axes P (in1, line1) = Some (in2, line2, dims, sp)"
      and nA: "nAtoms = Some nA"
      and at: "read_atoms P (nat \<bar>sint nA\<bar>) (in2, line2, mol1) = Some (in3, line3, mol2)"
      and nc: "read_nCubes P nA (in3, line3) = (in4, line4, nCubes)"
      and rd: "GaussianCube_read P in0 m =
          (case read_cubes P (unat nCubes) (vscale P (m0, m1, m2) (BOHR_TO_ANGSTROM P)) dims
                  (vscale P sp (BOHR_TO_ANGSTROM P)) (in4, line4, perceiveBondsSimple P mol2) of
             Undefined \<Rightarrow> Undefined
           | Threw x \<Rightarrow> Threw x
           | Ok (in5, line5, mol4) \<Rightarrow> Ok (True, mol4))"
    by blast
  define n where "n = unat nCubes"
  define mn where "mn = vscale P (m0, m1, m2) (BOHR_TO_ANGSTROM P)"
  define sp' where "sp' = vscale P sp (BOHR_TO_ANGSTROM P)"
  define mol3 where "mol3 = perceiveBondsSimple P mol2"
  from read_nCubes_count [OF nc] have n: "n = (if sint nA < 0 then unat (count_field P in3) else 1)"
    by (simp add: n_def)
  from rd have rd': "GaussianCube_read P in0 m =
          (case read_cubes P n mn dims sp' (in4, line4, mol3) of
             Undefined \<Rightarrow> Undefined
           | Threw x \<Rightarrow> Threw x
           | Ok (in5, line5, mol4) \<Rightarrow> Ok (True, mol4))"
    by (simp add: n_def mn_def sp'_def mol3_def)
  have ok: "GaussianCube_read P in0 m = Ok (b, m') \<longrightarrow>
            b \<and> (\<exists>st'. read_cubes P n mn dims sp' (fst (in4, line4), snd (in4, line4), mol3)
                         = Ok (fst st', snd st', m'))"
    unfolding rd' by (cases "read_cubes P n mn dims sp' (in4, line4, mol3)") auto
  have thr: "GaussianCube_read P in0 m = Threw m' \<longrightarrow>
            read_cubes P n mn dims sp' (fst (in4, line4), snd (in4, line4), mol3) = Threw m'"
    unfolding rd' by (cases "read_cubes P n mn dims sp' (in4, line4, mol3)") auto
  from hdr nA have f1: "nAtoms_field P in0 m = Some nA" by (simp add: nAtoms_field_def)
  from hdr ax have f2: "dims_field P in0 m = Some dims" by (simp add: dims_field_def)
  from hdr ax nA at have f3: "stream_after_atoms P in0 m = Some in3"
    by (simp add: stream_after_atoms_def)
  from read_atoms_effect [OF at] read_header_molecule [OF hdr]
  have m2: "(\<exists>new. atoms mol2 = atoms m @ new \<and> length new = nat \<bar>sint nA\<bar>)"
    "cubes mol2 = cubes m" "bonds mol2 = bonds m"
    "calls mol2 = calls m @ [SetData] @ concat (replicate (nat \<bar>sint nA\<bar>) [AddAtom, SetPosition3d])"
    by auto
  from f1 f2 f3 n m2 ok thr show ?thesis unfolding mol3_def by blast
qed

lemma set_concat_replicate: "set (concat (replicate j xs)) \<subseteq> set xs"
  by (induction j) auto

subsection \<open>Malformed and missing numbers\<close>

text \<open>
  C1, as the spec states it, does not hold: read has no error result. On the text that
  ends after the third of eight voxel values, and on the text whose third voxel token is
  \<open>x\<close>, read returns true; the values that were not read are the 0 the buffer was
  filled with.
\<close>

theorem malformed_input_reported_as_success:
  "GaussianCube_read decimal_prims (istream_of truncated_text) empty_molecule
     = Ok (True, water_molecule [0, 1, 2, 0, 0, 0, 0, 0])
   \<and> GaussianCube_read decimal_prims (istream_of malformed_text) empty_molecule
     = Ok (True, water_molecule [5, 4, 0, 0, 0, 0, 0, 0])"
  by (simp add: read_truncated read_malformed)

text \<open>
  C1, amended. read reports no error: every call of read that returns, returns true,
  whatever the stream holds.
\<close>

theorem read_returns_true:
  assumes "GaussianCube_read P in0 m = Ok (b, m')"
  shows "b"
proof -
  from assms have "GaussianCube_read P in0 m = Ok (b, m') \<or> GaussianCube_read P in0 m = Threw m'"
    by simp
  from read_result [OF this] assms show ?thesis by auto
qed

theorem read_returns_true_witness:
  "GaussianCube_read decimal_prims (istream_of truncated_text) empty_molecule
     = Ok (True, water_molecule [0, 1, 2, 0, 0, 0, 0, 0]) \<and> True"
  using read_returns_true [OF read_truncated] read_truncated by simp

subsection \<open>The number of atoms and of grids\<close>

text \<open>
  C2. When read returns, the number of atoms it added is the absolute value of nAtoms as
  read from the header, and the number of grids it added is the count read after the atom
  block when nAtoms is negative, and 1 otherwise.
\<close>

theorem atom_and_grid_counts:
  assumes "GaussianCube_read P in0 m = Ok (b, m')"
  shows "\<exists>nA in3. nAtoms_field P in0 m = Some nA \<and> stream_after_atoms P in0 m = Some in3
     \<and> length (atoms m') = length (atoms m) + nat \<bar>sint nA\<bar>
     \<and> length (cubes m') = length (cubes m) + (if sint nA < 0 then unat (count_field P in3) else 1)"
proof -
  from assms have "GaussianCube_read P in0 m = Ok (b, m') \<or> GaussianCube_read P in0 m = Threw m'"
    by simp
  from read_result [OF this] assms obtain nA in3 d mn sp st mol2 n st' new where
    f: "nAtoms_field P in0 m = Some nA" "stream_after_atoms P in0 m = Some in3"
    and n: "n = (if sint nA < 0 then unat (count_field P in3) else 1)"
    and a: "atoms mol2 = atoms m @ new" "length new = nat \<bar>sint nA\<bar>"
    and c: "cubes mol2 = cubes m"
    and rc: "read_cubes P n mn d sp (fst st, snd st, perceiveBondsSimple P mol2)
               = Ok (fst st', snd st', m')"
    by auto
  from read_cubes_Ok [OF rc] a c
  have "length (atoms m') = length (atoms m) + nat \<bar>sint nA\<bar>"
    and "length (cubes m') = length (cubes m) + n"
    by (auto simp: perceiveBondsSimple_def)
  with f n show ?thesis by blast
qed

theorem atom_and_grid_counts_witness:
  "GaussianCube_read decimal_prims (istream_of multi_text) empty_molecule = Ok (True, multi_molecule)
   \<and> (\<exists>nA in3. nAtoms_field decimal_prims (istream_of multi_text) empty_molecule = Some nA
        \<and> stream_after_atoms decimal_prims (istream_of multi_text) empty_molecule = Some in3
        \<and> length (atoms multi_molecule) = length (atoms empty_molecule) + nat \<bar>sint nA\<bar>
        \<and> length (cubes multi_molecule)
            = length (cubes empty_molecule) + (if sint nA < 0 then unat (count_field decimal_prims in3) else 1))"
  using atom_and_grid_counts [OF read_multi] read_multi by blast

subsection \<open>Dimensions that are not positive\<close>

text \<open>
  C4, as the spec states it, does not hold: read does not look at the sign of a
  dimension. With 0 as the first dimension read returns true, and the grid has the
  dimensions (0, 2, 2) and an empty buffer.
\<close>

theorem zero_dimension_accepted:
  "GaussianCube_read decimal_prims (istream_of zero_dim_text) empty_molecule
     = Ok (True, (water_molecule [])\<lparr>cubes :=
         [\<lparr>cube_min = (0, 0, 0), dimensions = (0, 2, 2), spacing = half_bohr, cube_data = []\<rparr>]\<rparr>)"
  by (rule read_zero_dim)

text \<open>
  C4, amended. read makes no check of the dimensions. When it returns, it returns true,
  and every grid it added has the dimensions of the axis lines as read and a buffer whose
  length is their product, an int that is not negative; when a dimension is 0 the buffer
  is empty.
\<close>

theorem grids_without_dimension_check:
  assumes "GaussianCube_read P in0 m = Ok (b, m')"
  shows "b \<and> (\<exists>d mn sp new. dims_field P in0 m = Some d \<and> cubes m' = cubes m @ new
            \<and> list_all (grid_of mn d sp) new
            \<and> ((fst d = 0 \<or> fst (snd d) = 0 \<or> snd (snd d) = 0)
                  \<longrightarrow> list_all (\<lambda>c. cube_data c = []) new))"
proof -
  from assms have "GaussianCube_read P in0 m = Ok (b, m') \<or> GaussianCube_read P in0 m = Threw m'"
    by simp
  from read_result [OF this] assms obtain d mn sp st mol2 n st' where
    f: "dims_field P in0 m = Some d"
    and c: "cubes mol2 = cubes m"
    and b: b
    and rc: "read_cubes P n mn d sp (fst st, snd st, perceiveBondsSimple P mol2)
               = Ok (fst st', snd st', m')"
    by auto
  from read_cubes_Ok [OF rc] c obtain new where
    new: "cubes m' = cubes m @ new" "list_all (grid_of mn d sp) new"
    by (auto simp: perceiveBondsSimple_def)
  have "list_all (\<lambda>c. cube_data c = []) new"
    if z: "fst d = 0 \<or> fst (snd d) = 0 \<or> snd (snd d) = 0"
  proof -
    obtain d0 d1 d2 where d: "d = (d0, d1, d2)" by (cases d) auto
    have "cube_data c = []" if "grid_of mn d sp c" for c
    proof -
      from that obtain p where p: "voxel_count d = Some p" "int (length (cube_data c)) = sint p"
        by (auto simp: grid_of_def split: option.splits)
      from voxel_count_zero [of d0 d1 d2 p] p z d have "sint p = 0" by simp
      with p show ?thesis by simp
    qed
    with new(2) show ?thesis by (auto simp: list_all_iff)
  qed
  with f new b show ?thesis by blast
qed

theorem grids_without_dimension_check_witness:
  "GaussianCube_read decimal_prims (istream_of zero_dim_text) empty_molecule
     = Ok (True, (water_molecule [])\<lparr>cubes :=
         [\<lparr>cube_min = (0, 0, 0), dimensions = (0, 2, 2), spacing = half_bohr, cube_data = []\<rparr>]\<rparr>)
   \<and> dims_field decimal_prims (istream_of zero_dim_text) empty_molecule = Some (0, 2, 2)
   \<and> (\<exists>mn sp new.
         cubes ((water_molecule [])\<lparr>cubes :=
         [\<lparr>cube_min = (0, 0, 0), dimensions = (0, 2, 2), spacing = half_bohr, cube_data = []\<rparr>]\<rparr>)
              = cubes empty_molecule @ new
         \<and> list_all (grid_of mn (0, 2, 2) sp) new
         \<and> list_all (\<lambda>c. cube_data c = []) new)"
proof -
  have d: "dims_field decimal_prims (istream_of zero_dim_text) empty_molecule = Some (0, 2, 2)"
    by code_simp
  from grids_without_dimension_check [OF read_zero_dim] d read_zero_dim show ?thesis
    by auto
qed

subsection \<open>The bond inference\<close>

text \<open>
  C9. In every call of read that returns, or that ends with the exception of the buffer
  allocation, the calls made on the Molecule are: setData for the name, then addAtom and
  setPosition3d once for each of the abs(nAtoms) atoms, then perceiveBondsSimple, then
  calls that add and fill cubes and no others. So perceiveBondsSimple is called exactly
  once, after all atoms are there and before any cube is added, and the bonds it appends
  are those inferred from the atoms of the result.
\<close>

theorem bonds_perceived_once:
  assumes "GaussianCube_read P in0 m = Ok (b, m') \<or> GaussianCube_read P in0 m = Threw m'"
  shows "\<exists>nA rest. nAtoms_field P in0 m = Some nA
     \<and> calls m' = calls m @ [SetData] @ concat (replicate (nat \<bar>sint nA\<bar>) [AddAtom, SetPosition3d])
                    @ [PerceiveBondsSimple] @ rest
     \<and> set rest \<subseteq> {AddCube, SetLimits, CubeSetData}
     \<and> length (atoms m') = length (atoms m) + nat \<bar>sint nA\<bar>
     \<and> bonds m' = bonds m @ perceive P (atoms m')"
proof -
  from read_result [OF assms] obtain nA in3 d mn sp st mol2 n new where
    f: "nAtoms_field P in0 m = Some nA"
    and a: "atoms mol2 = atoms m @ new" "length new = nat \<bar>sint nA\<bar>"
    and bo: "bonds mol2 = bonds m"
    and ca: "calls mol2 = calls m @ [SetData] @ concat (replicate (nat \<bar>sint nA\<bar>) [AddAtom, SetPosition3d])"
    and ok: "GaussianCube_read P in0 m = Ok (b, m') \<longrightarrow>
            b \<and> (\<exists>st'. read_cubes P n mn d sp (fst st, snd st, perceiveBondsSimple P mol2)
                         = Ok (fst st', snd st', m'))"
    and thr: "GaussianCube_read P in0 m = Threw m' \<longrightarrow>
            read_cubes P n mn d sp (fst st, snd st, perceiveBondsSimple P mol2) = Threw m'"
    by blast
  let ?mol3 = "perceiveBondsSimple P mol2"
  have m3: "atoms ?mol3 = atoms mol2" "bonds ?mol3 = bonds mol2 @ perceive P (atoms mol2)"
    "calls ?mol3 = calls mol2 @ [PerceiveBondsSimple]"
    by (simp_all add: perceiveBondsSimple_def)
  have "\<exists>rest. calls m' = calls ?mol3 @ rest \<and> set rest \<subseteq> {AddCube, SetLimits, CubeSetData}
          \<and> atoms m' = atoms ?mol3 \<and> bonds m' = bonds ?mol3"
  proof (cases "GaussianCube_read P in0 m = Ok (b, m')")
    case True
    with ok obtain st' where
      rc: "read_cubes P n mn d sp (fst st, snd st, ?mol3) = Ok (fst st', snd st', m')" by blast
    from read_cubes_Ok [OF rc]
    have "calls m' = calls ?mol3 @ concat (replicate n [AddCube, SetLimits, CubeSetData])"
      and "atoms m' = atoms ?mol3" "bonds m' = bonds ?mol3" by auto
    moreover have "set (concat (replicate n [AddCube, SetLimits, CubeSetData]))
        \<subseteq> {AddCube, SetLimits, CubeSetData}"
      using set_concat_replicate [of n "[AddCube, SetLimits, CubeSetData]"] by simp
    ultimately show ?thesis by blast
  next
    case False
    with assms thr have
      rc: "read_cubes P n mn d sp (fst st, snd st, ?mol3) = Threw m'" by blast
    from read_cubes_Threw [OF rc] obtain j where
      "calls m' = calls ?mol3 @ concat (replicate j [AddCube, SetLimits, CubeSetData]) @ [AddCube, SetLimits]"
      and r: "atoms m' = atoms ?mol3" "bonds m' = bonds ?mol3" by auto
    moreover have "set (concat (replicate j [AddCube, SetLimits, CubeSetData]) @ [AddCube, SetLimits])
        \<subseteq> {AddCube, SetLimits, CubeSetData}"
      using set_concat_replicate [of j "[AddCube, SetLimits, CubeSetData]"] by auto
    ultimately show ?thesis by blast
  qed
  then obtain rest where
    rest: "calls m' = calls ?mol3 @ rest" "set rest \<subseteq> {AddCube, SetLimits, CubeSetData}"
      "atoms m' = atoms ?mol3" "bonds m' = bonds ?mol3" by blast
  from rest m3 ca have "calls m' = calls m @ [SetData]
        @ concat (replicate (nat \<bar>sint nA\<bar>) [AddAtom, SetPosition3d]) @ [PerceiveBondsSimple] @ rest"
    by simp
  moreover from rest m3 a have "length (atoms m') = length (atoms m) + nat \<bar>sint nA\<bar>" by simp
  moreover from rest m3 bo have "bonds m' = bonds m @ perceive P (atoms m')" by simp
  ultimately show ?thesis using f rest(2) by blast
qed

theorem bonds_perceived_once_witness:
  "(GaussianCube_read decimal_prims (istream_of water_text) empty_molecule
      = Ok (True, water_molecule [0, 1, 2, 3, 4, 5, 6, 7])
    \<or> GaussianCube_read decimal_prims (istream_of water_text) empty_molecule
      = Threw (water_molecule [0, 1, 2, 3, 4, 5, 6, 7]))
   \<and> (\<exists>nA rest. nAtoms_field decimal_prims (istream_of water_text) empty_molecule = Some nA
     \<and> calls (water_molecule [0, 1, 2, 3, 4, 5, 6, 7])
         = calls empty_molecule @ [SetData]
            @ concat (replicate (nat \<bar>sint nA\<bar>) [AddAtom, SetPosition3d])
            @ [PerceiveBondsSimple] @ rest
     \<and> set rest \<subseteq> {AddCube, SetLimits, CubeSetData}
     \<and> length (atoms (water_molecule [0, 1, 2, 3, 4, 5, 6, 7]))
         = length (atoms empty_molecule) + nat \<bar>sint nA\<bar>
     \<and> bonds (water_molecule [0, 1, 2, 3, 4, 5, 6, 7])
         = bonds empty_molecule @ perceive decimal_prims (atoms (water_molecule [0, 1, 2, 3, 4, 5, 6, 7])))"
proof -
  have h: "GaussianCube_read decimal_prims (istream_of water_text) empty_molecule
      = Ok (True, water_molecule [0, 1, 2, 3, 4, 5, 6, 7])
    \<or> GaussianCube_read decimal_prims (istream_of water_text) empty_molecule
      = Threw (water_molecule [0, 1, 2, 3, 4, 5, 6, 7])"
    using read_water by simp
  from bonds_perceived_once [OF h] h show ?thesis by blast
qed

subsection \<open>The voxel block of the writer\<close>

lemma write_values_layout:
  "write_values P out i vs = out @ concat (map (voxel_field P) (zip [i..<i + length vs] vs))"
proof (induction vs arbitrary: out i)
  case Nil
  then show ?case by simp
next
  case (Cons v vs)
  have "[i..<i + Suc (length vs)] = i # [Suc i..<i + Suc (length vs)]"
    by (rule upt_conv_Cons) simp
  then have "[i..<i + length (v # vs)] = i # [Suc i..<Suc i + length vs]"
    by simp
  with Cons.IH [of "out @ voxel_field P (i, v)" "Suc i"] show ?case
    by (simp add: voxel_field_def)
qed


lemma write_atoms_extends: "write_atoms P out as = (ok, out') \<Longrightarrow> \<exists>r. out' = out @ r"
proof (induction as arbitrary: out)
  case Nil
  then show ?case by simp
next
  case (Cons a as)
  show ?case
  proof (cases "isValid a")
    case False
    with Cons.prems show ?thesis by simp
  next
    case True
    obtain x y z where p: "position3d a = (x, y, z)" by (cases "position3d a") auto
    from Cons.prems True p Cons.IH show ?thesis
      by (fastforce simp: writeFixedFloat_def writeFixedInt_def)
  qed
qed



subsection \<open>The axis lines\<close>

lemma takeWhile_line: "c \<notin> set a \<Longrightarrow> takeWhile (\<lambda>x. x \<noteq> c) (a @ c # r) = a"
  by (induction a) auto

lemma dropWhile_line: "c \<notin> set a \<Longrightarrow> dropWhile (\<lambda>x. x \<noteq> c) (a @ c # r) = c # r"
  by (induction a) auto

lemma getline_line:
  "good s \<Longrightarrow> buf s = a @ newline # r \<Longrightarrow> newline \<notin> set a \<Longrightarrow> getline s l = (s\<lparr>buf := r\<rparr>, a)"
  by (simp add: getline_def takeWhile_line dropWhile_line)




subsection \<open>The unit conversion\<close>

















subsection \<open>Reading back what write has written\<close>

lemma isdigit_digit_char:
  assumes "0 \<le> n" and "n < 10"
  shows "isdigit (digit_char n)"
proof -
  have "list_all isdigit ''0123456789''" by (simp add: isdigit_def)
  moreover from assms have "nat n < length ''0123456789''" by simp
  ultimately have "isdigit (''0123456789'' ! nat n)"
    unfolding list_all_length by blast
  then show ?thesis by (simp add: digit_char_def)
qed

lemma dec_starts_with_digit: "0 \<le> n \<Longrightarrow> \<exists>c cs. dec n = c # cs \<and> isdigit c"
proof (induction n rule: dec.induct)
  case (1 n)
  show ?case
  proof (cases "n < 10")
    case True
    with "1.prems" show ?thesis by (simp add: dec.simps [of n] isdigit_digit_char)
  next
    case False
    with "1.prems" have "0 \<le> n div 10" by simp
    from "1.IH" [OF False this] obtain c cs where "dec (n div 10) = c # cs" "isdigit c" by blast
    with False show ?thesis by (simp add: dec.simps [of n])
  qed
qed

lemma digit_not_space: "isdigit c \<Longrightarrow> \<not> isspace c"
  by (auto simp: isdigit_def isspace_def)

lemma digit_not_sign: "isdigit c \<Longrightarrow> c \<noteq> CHR ''-'' \<and> c \<noteq> CHR ''+''"
  by (auto simp: isdigit_def)

lemma foldl_digits_nonneg:
  "0 \<le> a \<Longrightarrow> \<forall>c \<in> set ds. isdigit c \<Longrightarrow>
     0 \<le> foldl (\<lambda>n c. 10 * n + (of_char c - 48)) (a :: int) ds"
proof (induction ds arbitrary: a)
  case Nil
  then show ?case by simp
next
  case (Cons d ds)
  from Cons.prems have "isdigit d" by simp
  then have "(48 :: int) \<le> of_char d" unfolding isdigit_def
    by (metis of_nat_le_iff of_nat_numeral of_nat_of_char)
  with Cons.prems have "0 \<le> 10 * a + (of_char d - 48)" by simp
  from Cons.IH [OF this] Cons.prems show ?case by simp
qed

lemma scan_int_digit:
  assumes "isdigit c" and "scan_int (c # cs) = (v, ok, r)"
  shows "0 \<le> sint v"
proof -
  let ?ds = "takeWhile isdigit (c # cs)"
  let ?n = "dec_value ?ds"
  have "\<forall>x \<in> set ?ds. isdigit x" by (auto dest: set_takeWhileD)
  then have n: "0 \<le> ?n" unfolding dec_value_def by (rule foldl_digits_nonneg [OF order_refl])
  from assms(1) have ds: "?ds \<noteq> []" by simp
  from assms digit_not_sign [OF assms(1)] ds
  have v: "v = (if ?n > 2147483647 then word_of_int 2147483647 else word_of_int ?n)"
    by (auto simp: scan_int_def Let_def split: if_splits)
  show ?thesis
  proof (cases "?n > 2147483647")
    case True
    with v have "sint v = 2147483647" by simp
    then show ?thesis by simp
  next
    case False
    with v n have "sint v = ?n" by (simp add: sint_word_of_int_32)
    with n show ?thesis by simp
  qed
qed

lemma dropWhile_setw_right:
  "\<not> isspace c \<Longrightarrow> dropWhile isspace (setw_right w (c # cs) @ r) = c # cs @ r"
  by (simp add: setw_right_def dropWhile_append3 isspace_def)

lemma extraction_count:
  assumes "good s" and "buf s = setw_right 5 (dec k) @ r" and "0 \<le> k"
  shows "\<exists>v. snd (extraction scan_int s None) = Some v \<and> 0 \<le> sint v"
proof -
  from dec_starts_with_digit [OF assms(3)] obtain c cs where d: "dec k = c # cs" "isdigit c"
    by blast
  with assms(2) have dw: "dropWhile isspace (buf s) = c # cs @ r"
    by (simp add: dropWhile_setw_right digit_not_space)
  obtain v ok r' where sc: "scan_int (c # cs @ r) = (v, ok, r')"
    by (cases "scan_int (c # cs @ r)") auto
  from scan_int_digit [OF d(2) sc] have "0 \<le> sint v" .
  with assms(1) dw sc show ?thesis by (simp add: extraction_def)
qed

lemma banner_line: "newline \<notin> set banner"
  by (simp add: banner_def newline_def)

lemma write_values_extends: "\<exists>r. write_values P out i vs = out @ r"
  by (simp add: write_values_layout)

lemma write_head:
  assumes "GaussianCube_write P out mol = Some (True, t)"
  shows "\<exists>rest. t = out @ banner @ newline # data_name mol @ newline
            # setw_right 5 (dec (uint (word_of_nat (length (atoms mol)) :: 32 word))) @ rest"
proof -
  let ?h = "out @ banner @ newline # data_name mol @ newline
            # setw_right 5 (dec (uint (word_of_nat (length (atoms mol)) :: 32 word)))"
  from assms obtain out6 out7 where
    o6: "\<exists>r. out6 = ?h @ r"
    and wa: "write_atoms P out6 (atoms mol) = (True, out7)"
    and t: "t = write_values P out7 0 (cube_data (hd (cubes mol)))"
    by (auto simp: GaussianCube_write_def Let_def write_axis_def writeFixedFloat_def
          writeFixedInt_def split: if_splits prod.splits)
  from write_atoms_extends [OF wa] obtain r7 where "out7 = out6 @ r7" by blast
  moreover from write_values_extends [of P out7 0 "cube_data (hd (cubes mol))"] t
  obtain r8 where "t = out7 @ r8" by auto
  ultimately show ?thesis using o6 by auto
qed



subsection \<open>Writing, reading and writing again\<close>




subsection \<open>The atom count that write writes\<close>

text \<open>
  C10, as the implicit claim states it, does not hold for every molecule that write
  accepts. The name is written as it is, and a name may hold line breaks. For the
  molecule without atoms whose name is the seven lines of \<open>lines_name\<close>, the third line
  of the text is \<open>-1 0 0 0\<close>; read takes nAtoms = -1 and the count 2 from the lines of
  the name, and makes two grids.
\<close>

theorem name_with_line_breaks_read_as_multi_cube:
  "GaussianCube_write decimal_prims [] lines_molecule = Some (True, lines_text)
   \<and> GaussianCube_read decimal_prims (istream_of lines_text) empty_molecule = Ok (True, lines_read)
   \<and> nAtoms_field decimal_prims (istream_of lines_text) empty_molecule = Some (- 1)
   \<and> length (cubes lines_read) = 2"
proof -
  have "nAtoms_field decimal_prims (istream_of lines_text) empty_molecule = Some (- 1)"
    by code_simp
  moreover have "length (cubes lines_read) = 2" by (simp add: lines_read_def)
  ultimately show ?thesis using write_lines read_lines by simp
qed

text \<open>
  C10, amended. For every molecule that write accepts and whose name holds no line
  break, the third line of the text starts with the atom count, padded to 5 characters:
  the decimal numeral of the number of atoms as an unsigned int, which is not negative,
  however many cubes the molecule has. Reading that text, nAtoms is not negative, and
  when read returns it has added exactly one grid.
\<close>

theorem written_count_read_back:
  assumes nl: "newline \<notin> set (data_name mol)"
    and w: "GaussianCube_write P [] mol = Some (True, t)"
    and r: "GaussianCube_read P (istream_of t) m0 = Ok (b, m')"
  shows "(\<exists>rest. t = banner @ newline # data_name mol @ newline
            # setw_right 5 (dec (uint (word_of_nat (length (atoms mol)) :: 32 word))) @ rest)
       \<and> (\<exists>nA. nAtoms_field P (istream_of t) m0 = Some nA \<and> 0 \<le> sint nA)
       \<and> length (cubes m') = length (cubes m0) + 1"
proof -
  let ?k = "uint (word_of_nat (length (atoms mol)) :: 32 word)"
  from write_head [OF w] obtain rest where
    t: "t = banner @ newline # data_name mol @ newline # setw_right 5 (dec ?k) @ rest" by auto
  let ?s1 = "(istream_of t)\<lparr>buf := data_name mol @ newline # setw_right 5 (dec ?k) @ rest\<rparr>"
  let ?s2 = "(istream_of t)\<lparr>buf := setw_right 5 (dec ?k) @ rest\<rparr>"
  have g1: "getline (istream_of t) [] = (?s1, banner)"
    using getline_line [of "istream_of t" banner
        "data_name mol @ newline # setw_right 5 (dec ?k) @ rest" "[]"]
    by (simp add: istream_of_def good_def t banner_line)
  have g2: "getline ?s1 banner = (?s2, data_name mol)"
    using getline_line [of ?s1 "data_name mol" "setw_right 5 (dec ?k) @ rest" banner] nl
    by (simp add: istream_of_def good_def)
  have "good ?s2" "buf ?s2 = setw_right 5 (dec ?k) @ rest" "0 \<le> ?k"
    by (simp_all add: istream_of_def good_def)
  from extraction_count [OF this] obtain v where
    v: "snd (extraction scan_int ?s2 None) = Some v" "0 \<le> sint v" by blast
  from g1 g2 v have nf: "nAtoms_field P (istream_of t) m0 = Some v"
    by (auto simp: nAtoms_field_def read_header_def split: prod.splits)
  from r have "GaussianCube_read P (istream_of t) m0 = Ok (b, m')
      \<or> GaussianCube_read P (istream_of t) m0 = Threw m'" by simp
  from read_result [OF this] obtain nA in3 d mn sp st mol2 n where
    f: "nAtoms_field P (istream_of t) m0 = Some nA"
    and n: "n = (if sint nA < 0 then unat (count_field P in3) else 1)"
    and c: "cubes mol2 = cubes m0"
    and ok: "GaussianCube_read P (istream_of t) m0 = Ok (b, m') \<longrightarrow>
            b \<and> (\<exists>st'. read_cubes P n mn d sp (fst st, snd st, perceiveBondsSimple P mol2)
                         = Ok (fst st', snd st', m'))"
    by blast
  from f nf v(2) n have n1: "n = 1" by simp
  from ok r obtain st' where
    rc: "read_cubes P n mn d sp (fst st, snd st, perceiveBondsSimple P mol2)
               = Ok (fst st', snd st', m')"
    by blast
  from read_cubes_Ok [OF rc] c n1 have "length (cubes m') = length (cubes m0) + 1"
    by (auto simp: perceiveBondsSimple_def)
  with t nf v(2) show ?thesis by blast
qed

theorem written_count_read_back_witness:
  "newline \<notin> set (data_name (oxygen_molecule ''water'' []))
   \<and> GaussianCube_write decimal_prims [] (oxygen_molecule ''water'' [])
       = Some (True, oxygen_text ''water'')
   \<and> GaussianCube_read decimal_prims (istream_of (oxygen_text ''water'')) empty_molecule
       = Ok (True, oxygen_molecule banner oxygen_calls)
   \<and> (\<exists>rest. oxygen_text ''water''
         = banner @ newline # data_name (oxygen_molecule ''water'' []) @ newline
            # setw_right 5 (dec (uint (word_of_nat (length (atoms (oxygen_molecule ''water'' [])))
                                        :: 32 word))) @ rest)
   \<and> (\<exists>nA. nAtoms_field decimal_prims (istream_of (oxygen_text ''water'')) empty_molecule = Some nA
         \<and> 0 \<le> sint nA)
   \<and> length (cubes (oxygen_molecule banner oxygen_calls)) = length (cubes empty_molecule) + 1"
proof -
  have n: "newline \<notin> set (data_name (oxygen_molecule ''water'' []))"
    by (simp add: data_name_def oxygen_molecule_def newline_def)
  from written_count_read_back [OF n write_oxygen read_oxygen] n write_oxygen read_oxygen
  show ?thesis by blast
qed

end
